theory Spec2Isabelle
  imports Main
begin

section \<open>The request authenticity gate of skillserver.go\<close>

text \<open>
  A shallow embedding of \<^verbatim>\<open>src/skillserver/skillserver.go\<close>: the functions
  \<^verbatim>\<open>HTTPError\<close>, \<^verbatim>\<open>verifyJSON\<close>, \<^verbatim>\<open>validateRequest\<close>,
  \<^verbatim>\<open>IsValidAlexaRequest\<close>, \<^verbatim>\<open>readCert\<close> and \<^verbatim>\<open>verifyCertURL\<close>.

  Go strings and byte slices are byte sequences: both are \<open>string\<close> here. The packages
  the code calls (\<^verbatim>\<open>net/url\<close>, \<^verbatim>\<open>net/http\<close>, \<^verbatim>\<open>encoding/pem\<close>,
  \<^verbatim>\<open>crypto/x509\<close>, \<^verbatim>\<open>encoding/base64\<close>, \<^verbatim>\<open>crypto/sha1\<close>,
  \<^verbatim>\<open>crypto/rsa\<close>, \<^verbatim>\<open>encoding/json\<close>, \<^verbatim>\<open>time\<close>) are not part of the
  repository. Each call into them is a field of the record \<open>env\<close> below, so every
  theorem holds for whatever these packages compute. A panic of the Go runtime is a value
  of type \<open>panic\<close>, returned on the left of a sum.
\<close>

subsection \<open>Data\<close>

type_synonym bytes = string

datatype panic =
    NilPointerDereference
  | TypeAssertionFailed

text \<open>The fields of \<^verbatim>\<open>url.URL\<close> that the code reads.\<close>

record URL =
  Scheme :: string
  Host :: string
  Path :: string

text \<open>
  An \<^verbatim>\<open>io.Reader\<close>: the bytes it still delivers, and the error it ends with
  (\<open>None\<close> is a clean end of file).
\<close>

record reader =
  pending :: bytes
  failure :: "string option"

text \<open>\<^verbatim>\<open>ioutil.ReadAll\<close>: all the bytes, or the reader's error.\<close>

definition ReadAll :: "reader \<Rightarrow> string + bytes" where
  "ReadAll rd = (case failure rd of None \<Rightarrow> Inr (pending rd) | Some err \<Rightarrow> Inl err)"

text \<open>
  \<^verbatim>\<open>http.Header\<close> and \<^verbatim>\<open>url.Values\<close> map a key to a list of values (no
  values for a key that is absent); their method \<^verbatim>\<open>Get\<close> returns the first value,
  or the empty string when there is none.
\<close>

type_synonym multimap = "string \<Rightarrow> string list"

definition Get :: "multimap \<Rightarrow> string \<Rightarrow> string" where
  "Get vs key = (case vs key of [] \<Rightarrow> [] | v # _ \<Rightarrow> v)"

text \<open>\<^verbatim>\<open>strings.HasPrefix(s, prefix)\<close>.\<close>

definition HasPrefix :: "string \<Rightarrow> string \<Rightarrow> bool" where
  "HasPrefix s pre = (length pre \<le> length s \<and> take (length pre) s = pre)"

subsection \<open>verifyCertURL\<close>

text \<open>
  \<^verbatim>\<open>link, _ := url.Parse(path)\<close> discards the error of \<^verbatim>\<open>url.Parse\<close>, which
  returns a nil \<^verbatim>\<open>*URL\<close> together with any error. The parser is the parameter
  \<open>parse\<close>, with \<open>None\<close> for the nil pointer; reading \<^verbatim>\<open>link.Scheme\<close> through
  a nil pointer panics.
\<close>

definition verifyCertURL :: "(string \<Rightarrow> URL option) \<Rightarrow> string \<Rightarrow> panic + bool" where
  "verifyCertURL parse path =
     (case parse path of
        None \<Rightarrow> Inl NilPointerDereference
      | Some link \<Rightarrow>
          if Scheme link \<noteq> ''https'' then Inr False
          else if Host link \<noteq> ''s3.amazonaws.com'' \<and> Host link \<noteq> ''s3.amazonaws.com:443''
            then Inr False
          else if \<not> HasPrefix (Path link) ''/echo.api/'' then Inr False
          else Inr True)"

subsection \<open>Certificates, requests and the outside world\<close>

text \<open>
  \<^verbatim>\<open>cert.Subject.Names\<close> is a list of attributes of the subject's distinguished
  name; the \<^verbatim>\<open>Value\<close> of each is an \<^verbatim>\<open>interface{}\<close>, a string or something
  else. The subject alternative names of a certificate are another field of
  \<^verbatim>\<open>x509.Certificate\<close>, \<^verbatim>\<open>DNSNames\<close>.
\<close>

datatype attr_value =
    StringValue string
  | OtherValue bytes

datatype public_key =
    RSAPublicKey nat nat
  | ECDSAPublicKey nat nat
  | OtherPublicKey

text \<open>The fields of \<^verbatim>\<open>x509.Certificate\<close>; the two times in Unix seconds.\<close>

record Certificate =
  NotBefore :: int
  NotAfter :: int
  Subject_Names :: "attr_value list"
  DNSNames :: "string list"
  PublicKey :: public_key

text \<open>
  Modelled from the spec: the type \<^verbatim>\<open>EchoRequest\<close> is declared in a file of the
  repository that is not under \<^verbatim>\<open>src/\<close>. The spec gives an incoming request a
  claimed timestamp, an instant; it is in Unix seconds here.
\<close>

record EchoRequest =
  Timestamp :: int

text \<open>
  The struct \<^verbatim>\<open>RequestValidator\<close>. \<^verbatim>\<open>client\<close> stands for
  \<^verbatim>\<open>r.client.Get\<close>: the text of the error, or the body of the response.
\<close>

record RequestValidator =
  client :: "string \<Rightarrow> string + reader"
  insecureSkipVerify :: bool
  timeout :: nat

text \<open>
  The fields of \<^verbatim>\<open>http.Request\<close> that the code reads or writes:
  \<^verbatim>\<open>Header\<close>, \<^verbatim>\<open>URL.Query()\<close>, \<^verbatim>\<open>URL.Path\<close>, \<^verbatim>\<open>Body\<close>, and the
  value stored in its context under the key \<^verbatim>\<open>echoRequest\<close>.
\<close>

record request =
  Header :: multimap
  Query :: multimap
  URL_Path :: string
  Body :: reader
  echoRequest :: "EchoRequest option"

text \<open>The values of the table \<^verbatim>\<open>applications\<close>, a \<^verbatim>\<open>map[string]interface{}\<close>.\<close>

datatype application =
    EchoApplication string
  | StdApplication string

text \<open>
  The calls into packages outside the repository. \<open>time_Now env k\<close> is what the
  \<open>k\<close>-th call of \<^verbatim>\<open>time.Now().Unix()\<close> in a handler returns.
  \<open>base64_DecodeString\<close> returns the decoded bytes and the error, as
  \<^verbatim>\<open>base64.StdEncoding.DecodeString\<close> does. \<open>rsa_VerifyPKCS1v15 n e digest sig\<close>
  is true when \<^verbatim>\<open>rsa.VerifyPKCS1v15\<close> returns a nil error for the key \<open>(n, e)\<close> and
  the hash \<^verbatim>\<open>crypto.SHA1\<close>. \<open>json_Decode\<close> returns the decoded request or the text
  of the error, and what is left of the reader. \<open>VerifyAppID\<close> is a method of
  \<^verbatim>\<open>EchoRequest\<close>.
\<close>

record env =
  url_Parse :: "string \<Rightarrow> URL option"
  pem_Decode :: "bytes \<Rightarrow> bytes option"
  x509_ParseCertificate :: "bytes \<Rightarrow> string + Certificate"
  time_Now :: "nat \<Rightarrow> int"
  base64_DecodeString :: "string \<Rightarrow> bytes \<times> string option"
  sha1_Sum :: "bytes \<Rightarrow> bytes"
  rsa_VerifyPKCS1v15 :: "nat \<Rightarrow> nat \<Rightarrow> bytes \<Rightarrow> bytes \<Rightarrow> bool"
  json_Decode :: "reader \<Rightarrow> (string + EchoRequest) \<times> reader"
  VerifyAppID :: "EchoRequest \<Rightarrow> string \<Rightarrow> bool"

text \<open>
  What a run does, in order: the lines it logs, the responses it writes through the
  \<^verbatim>\<open>http.ResponseWriter\<close>, and each stage it enters (a call of
  \<^verbatim>\<open>verifyCertURL\<close>, of the HTTP client, of the PEM, X.509, base64 and JSON decoders,
  the bytes written to the SHA-1 hash, the RSA verification with its key, digest and
  signature).
\<close>

datatype event =
    LogPrintln string
  | HttpError string nat
  | CallVerifyCertURL string
  | CallClientGet string
  | CallPemDecode bytes
  | CallParseCertificate bytes
  | CallBase64Decode string
  | Sha1Write bytes
  | CallRsaVerify public_key bytes bytes
  | CallJsonDecode

type_synonym trace = "event list"

type_synonym handler = "trace \<Rightarrow> request \<Rightarrow> panic + trace \<times> request"

subsection \<open>HTTPError\<close>

definition HTTPError :: "trace \<Rightarrow> string \<Rightarrow> string \<Rightarrow> nat \<Rightarrow> trace" where
  "HTTPError w logMsg err errCode =
     (if logMsg \<noteq> [] then w @ [LogPrintln logMsg] else w) @ [HttpError err errCode]"

subsection \<open>readCert\<close>

definition readCert :: "RequestValidator \<Rightarrow> string \<Rightarrow> string + bytes" where
  "readCert r certURL =
     (case client r certURL of
        Inl err \<Rightarrow> Inl (''could not download Amazon cert file: '' @ err)
      | Inr cert_Body \<Rightarrow>
          (case ReadAll cert_Body of
             Inl err \<Rightarrow> Inl (''could not read Amazon cert file: '' @ err)
           | Inr certContents \<Rightarrow> Inr certContents))"

subsection \<open>IsValidAlexaRequest\<close>

text \<open>The loop over \<^verbatim>\<open>cert.Subject.Names\<close>, with \<^verbatim>\<open>foundName\<close> as accumulator.\<close>

fun foundName_loop :: "bool \<Rightarrow> attr_value list \<Rightarrow> bool" where
  "foundName_loop foundName [] = foundName"
| "foundName_loop foundName (altName # names) =
     foundName_loop (if altName = StringValue ''echo-api.amazon.com'' then True else foundName) names"

text \<open>
  \<^verbatim>\<open>io.Copy(hash, io.TeeReader(request.Body, &bodyBuf))\<close> reads the body to its end:
  the bytes read are in \<^verbatim>\<open>bodyBuf\<close> and in the hash, the error (if any) is returned,
  and the body has nothing left to deliver.
\<close>

definition Copy_TeeReader :: "reader \<Rightarrow> bytes \<times> string option \<times> reader" where
  "Copy_TeeReader rd = (pending rd, failure rd, rd\<lparr>pending := []\<rparr>)"

text \<open>\<^verbatim>\<open>ioutil.NopCloser(&bodyBuf)\<close>.\<close>

definition NopCloser :: "bytes \<Rightarrow> reader" where
  "NopCloser bodyBuf = \<lparr>pending = bodyBuf, failure = None\<rparr>"

text \<open>
  The result is the boolean returned, the trace, and the request (the code replaces
  \<^verbatim>\<open>request.Body\<close> through the pointer). \<^verbatim>\<open>publicKey.(*rsa.PublicKey)\<close> is a
  type assertion with one result: it panics on a key that is not an RSA key.
\<close>

definition IsValidAlexaRequest ::
  "env \<Rightarrow> RequestValidator \<Rightarrow> trace \<Rightarrow> request \<Rightarrow> panic + bool \<times> trace \<times> request" where
  "IsValidAlexaRequest env r w request =
     (if insecureSkipVerify r then Inr (True, w, request)
      else
       (let certURL = Get (Header request) ''SignatureCertChainUrl'';
            w1 = w @ [CallVerifyCertURL certURL]
        in (case verifyCertURL (url_Parse env) certURL of
          Inl p \<Rightarrow> Inl p
        | Inr valid \<Rightarrow>
         (if \<not> valid
          then Inr (False, HTTPError w1 (''Invalid cert URL: '' @ certURL) ''Not Authorized'' 401, request)
          else
           (let w2 = w1 @ [CallClientGet certURL]
            in (case readCert r certURL of
              Inl err \<Rightarrow> Inr (False, HTTPError w2 err ''Not Authorized'' 401, request)
            | Inr certContents \<Rightarrow>
             (let w3 = w2 @ [CallPemDecode certContents]
              in (case pem_Decode env certContents of
                None \<Rightarrow>
                  Inr (False, HTTPError w3 ''Failed to parse certificate PEM.'' ''Not Authorized'' 401, request)
              | Some block_Bytes \<Rightarrow>
               (let w4 = w3 @ [CallParseCertificate block_Bytes]
                in (case x509_ParseCertificate env block_Bytes of
                  Inl err \<Rightarrow> Inr (False, HTTPError w4 err ''Not Authorized'' 401, request)
                | Inr cert \<Rightarrow>
                 (if time_Now env 0 < NotBefore cert \<or> time_Now env 1 > NotAfter cert
                  then Inr (False, HTTPError w4 ''Amazon certificate expired.'' ''Not Authorized'' 401, request)
                  else
                   (let foundName = foundName_loop False (Subject_Names cert)
                    in (if \<not> foundName
                    then Inr (False, HTTPError w4 ''Amazon certificate invalid.'' ''Not Authorized'' 401, request)
                    else
                     (let publicKey = PublicKey cert;
                          signature = Get (Header request) ''Signature'';
                          encryptedSig = fst (base64_DecodeString env signature);
                          w5 = w4 @ [CallBase64Decode signature]
                      in (case Copy_TeeReader (Body request) of
                        (bodyBuf, err, drained) \<Rightarrow>
                         (let w6 = w5 @ [Sha1Write bodyBuf]
                          in (case err of
                            Some e \<Rightarrow>
                              Inr (False, HTTPError w6 e ''Internal Error'' 500, request\<lparr>Body := drained\<rparr>)
                          | None \<Rightarrow>
                             (let request' = request\<lparr>Body := NopCloser bodyBuf\<rparr>;
                                  digest = sha1_Sum env bodyBuf
                              in (case publicKey of
                                RSAPublicKey n e \<Rightarrow>
                                 (let w7 = w6 @ [CallRsaVerify publicKey digest encryptedSig]
                                  in (if \<not> rsa_VerifyPKCS1v15 env n e digest encryptedSig
                                      then Inr (False, HTTPError w7 ''Signature match failed.'' ''Not Authorized'' 401, request')
                                      else Inr (True, w7, request')))
                              | _ \<Rightarrow> Inl TypeAssertionFailed)))))))))))))))))))"

subsection \<open>validateRequest\<close>

text \<open>
  \<^verbatim>\<open>!isDev && !r.IsValidAlexaRequest(w, req)\<close>: the right operand is evaluated only
  when \<^verbatim>\<open>isDev\<close> is false.
\<close>

definition validateRequest ::
  "env \<Rightarrow> RequestValidator \<Rightarrow> handler \<Rightarrow> trace \<Rightarrow> request \<Rightarrow> panic + trace \<times> request" where
  "validateRequest env r next_handler w req =
     (let devFlag = Get (Query req) ''_dev'';
          isDev = (devFlag \<noteq> [])
      in if isDev then next_handler w req
         else case IsValidAlexaRequest env r w req of
           Inl p \<Rightarrow> Inl p
         | Inr (valid, w', req') \<Rightarrow>
             if \<not> valid then Inr (w' @ [LogPrintln ''Request invalid''], req')
             else next_handler w' req')"

subsection \<open>verifyJSON\<close>

text \<open>
  Modelled from the spec: the method \<^verbatim>\<open>VerifyTimestamp\<close> of \<^verbatim>\<open>EchoRequest\<close> is
  not under \<^verbatim>\<open>src/\<close>. The spec's freshness checker rejects when
  \<open>\<bar>now - claimed\<bar> > freshness-window\<close>, with a window of 150 seconds.
\<close>

definition freshness_window :: int where
  "freshness_window = 150"

definition VerifyTimestamp :: "int \<Rightarrow> EchoRequest \<Rightarrow> bool" where
  "VerifyTimestamp now echoReq = (\<not> \<bar>now - Timestamp echoReq\<bar> > freshness_window)"

text \<open>
  \<^verbatim>\<open>applications[r.URL.Path].(EchoApplication)\<close> panics when the table has no
  \<^verbatim>\<open>EchoApplication\<close> under the path.
\<close>

definition verifyJSON ::
  "env \<Rightarrow> (string \<Rightarrow> application option) \<Rightarrow> handler \<Rightarrow> trace \<Rightarrow> request \<Rightarrow> panic + trace \<times> request" where
  "verifyJSON env applications next_handler w r =
     (case json_Decode env (Body r) of
        (decoded, rest) \<Rightarrow>
         (let r1 = r\<lparr>Body := rest\<rparr>;
              w1 = w @ [CallJsonDecode]
          in (case decoded of
            Inl err \<Rightarrow> Inr (HTTPError w1 err ''Bad Request'' 400, r1)
          | Inr echoReq \<Rightarrow>
             (if \<not> VerifyTimestamp (time_Now env 0) echoReq \<and> Get (Query r1) ''_dev'' = []
              then Inr (HTTPError w1 ''Request too old to continue (>150s).'' ''Bad Request'' 400, r1)
              else (case applications (URL_Path r1) of
                Some (EchoApplication appID) \<Rightarrow>
                 (if \<not> VerifyAppID env echoReq appID
                  then Inr (HTTPError w1 ''Echo AppID mismatch!'' ''Bad Request'' 400, r1)
                  else next_handler w1 (r1\<lparr>echoRequest := Some echoReq\<rparr>))
              | _ \<Rightarrow> Inl TypeAssertionFailed)))))"

subsection \<open>Statement shorthands\<close>

abbreviation certChainUrl :: "request \<Rightarrow> string" where
  "certChainUrl request \<equiv> Get (Header request) ''SignatureCertChainUrl''"

text \<open>
  The gate is on, the certificate URL is allowed, the fetch delivers \<open>certContents\<close>,
  its PEM block is \<open>block_Bytes\<close>, and that parses to \<open>cert\<close>.
\<close>

abbreviation certificate_parsed ::
  "env \<Rightarrow> RequestValidator \<Rightarrow> request \<Rightarrow> bytes \<Rightarrow> bytes \<Rightarrow> Certificate \<Rightarrow> bool" where
  "certificate_parsed env r request certContents block_Bytes cert \<equiv>
     \<not> insecureSkipVerify r
     \<and> verifyCertURL (url_Parse env) (certChainUrl request) = Inr True
     \<and> readCert r (certChainUrl request) = Inr certContents
     \<and> pem_Decode env certContents = Some block_Bytes
     \<and> x509_ParseCertificate env block_Bytes = Inr cert"

text \<open>The trace of a run up to the parsed certificate.\<close>

abbreviation parsed_trace :: "trace \<Rightarrow> request \<Rightarrow> bytes \<Rightarrow> bytes \<Rightarrow> trace" where
  "parsed_trace w request certContents block_Bytes \<equiv>
     w @ [CallVerifyCertURL (certChainUrl request), CallClientGet (certChainUrl request),
          CallPemDecode certContents, CallParseCertificate block_Bytes]"

subsection \<open>Concrete inputs\<close>

text \<open>
  A small world to run the gate in: one certificate URL that parses and is served, a
  certificate valid from second 1000 to second 2000, a body \<open>''body''\<close> and the one
  signature that verifies for it. The parser returns nil for what it does not know, as
  \<^verbatim>\<open>url.Parse\<close> does for \<open>'':''\<close> (missing protocol scheme).
\<close>

definition demo_certURL :: string where
  "demo_certURL = ''https://s3.amazonaws.com/echo.api/echo-api-cert.pem''"

definition demo_cert :: Certificate where
  "demo_cert = \<lparr>NotBefore = 1000, NotAfter = 2000,
     Subject_Names = [StringValue ''US'', StringValue ''echo-api.amazon.com''],
     DNSNames = [''echo-api.amazon.com''],
     PublicKey = RSAPublicKey 3233 17\<rparr>"

definition demo_parse :: "string \<Rightarrow> URL option" where
  "demo_parse s =
     (if s = demo_certURL
      then Some \<lparr>Scheme = ''https'', Host = ''s3.amazonaws.com'', Path = ''/echo.api/echo-api-cert.pem''\<rparr>
      else if s = ''https://s3.amazonaws.com:443/echo.api/missing.pem''
      then Some \<lparr>Scheme = ''https'', Host = ''s3.amazonaws.com:443'', Path = ''/echo.api/missing.pem''\<rparr>
      else if s = ''http://s3.amazonaws.com/echo.api/echo-api-cert.pem''
      then Some \<lparr>Scheme = ''http'', Host = ''s3.amazonaws.com'', Path = ''/echo.api/echo-api-cert.pem''\<rparr>
      else None)"

definition demo_base64 :: "string \<Rightarrow> bytes \<times> string option" where
  "demo_base64 s =
     (if s = ''c2ln'' then (''sig'', None)
      else if s = ''c2ln!'' then (''sig'', Some ''illegal base64 data at input byte 4'')
      else ([], Some ''illegal base64 data at input byte 0''))"

definition demo_env :: "Certificate \<Rightarrow> int \<Rightarrow> env" where
  "demo_env cert now = \<lparr>
     url_Parse = demo_parse,
     pem_Decode = (\<lambda>b. if b = ''PEM'' then Some ''DER''
                        else if b = ''PEM2'' then Some ''bad DER'' else None),
     x509_ParseCertificate =
       (\<lambda>b. if b = ''DER'' then Inr cert else Inl ''x509: malformed certificate''),
     time_Now = (\<lambda>k. now),
     base64_DecodeString = demo_base64,
     sha1_Sum = (\<lambda>b. ''sha1:'' @ b),
     rsa_VerifyPKCS1v15 =
       (\<lambda>n e digest sig. n = 3233 \<and> e = 17 \<and> digest = ''sha1:body'' \<and> sig = ''sig''),
     json_Decode =
       (\<lambda>rd. (if pending rd = ''body'' then Inr \<lparr>Timestamp = 1400\<rparr>
                else Inl ''unexpected end of JSON input'',
               rd\<lparr>pending := []\<rparr>)),
     VerifyAppID = (\<lambda>echoReq appID. appID = ''amzn1.echo-sdk-ams.app.1'')\<rparr>"

definition demo_validator :: "bytes \<Rightarrow> RequestValidator" where
  "demo_validator served = \<lparr>
     client = (\<lambda>u. if u = demo_certURL then Inr \<lparr>pending = served, failure = None\<rparr>
                    else Inl ''dial tcp: i/o timeout''),
     insecureSkipVerify = False,
     timeout = 5000000000\<rparr>"

definition demo_request :: "string \<Rightarrow> string \<Rightarrow> string \<Rightarrow> bytes \<Rightarrow> request" where
  "demo_request certURL signature dev body = \<lparr>
     Header = (\<lambda>k. if k = ''SignatureCertChainUrl'' then [certURL]
                   else if k = ''Signature'' then [signature] else []),
     Query = (\<lambda>k. if k = ''_dev'' then [dev] else []),
     URL_Path = ''/echo/hello'',
     Body = \<lparr>pending = body, failure = None\<rparr>,
     echoRequest = None\<rparr>"

definition demo_applications :: "string \<Rightarrow> application option" where
  "demo_applications path =
     (if path = ''/echo/hello'' then Some (EchoApplication ''amzn1.echo-sdk-ams.app.1'')
      else None)"

definition demo_next :: handler where
  "demo_next w req = Inr (w @ [LogPrintln ''next handler''], req)"

section \<open>Properties\<close>

subsection \<open>Auxiliary facts\<close>

lemma HasPrefix_iff: "HasPrefix s pre \<longleftrightarrow> (\<exists>rest. s = pre @ rest)"
  unfolding HasPrefix_def
  by (metis append_eq_conv_conj append_take_drop_id length_append le_add1)

lemma foundName_loop_eq:
  "foundName_loop foundName names =
     (foundName \<or> StringValue ''echo-api.amazon.com'' \<in> set names)"
  by (induction names arbitrary: foundName) auto

lemma readCert_error_text:
  assumes "readCert r certURL = Inl msg"
  shows "HasPrefix msg ''could not download Amazon cert file: ''
       \<or> HasPrefix msg ''could not read Amazon cert file: ''"
  using assms unfolding readCert_def HasPrefix_iff
  by (auto split: sum.splits)

lemma readCert_error_nonempty: "readCert r certURL = Inl msg \<Longrightarrow> msg \<noteq> []"
  by (auto simp: readCert_def split: sum.splits)

lemma HTTPError_reason:
  "logMsg \<noteq> [] \<Longrightarrow> HTTPError w logMsg err errCode = w @ [LogPrintln logMsg, HttpError err errCode]"
  by (simp add: HTTPError_def)

text \<open>The run of \<open>IsValidAlexaRequest\<close>, stage by stage.\<close>

lemma skip_verify_accepts:
  "insecureSkipVerify r \<Longrightarrow> IsValidAlexaRequest env r w request = Inr (True, w, request)"
  by (simp add: IsValidAlexaRequest_def)

lemma certURL_panic:
  assumes "\<not> insecureSkipVerify r"
    and "verifyCertURL (url_Parse env) (certChainUrl request) = Inl p"
  shows "IsValidAlexaRequest env r w request = Inl p"
  using assms by (simp add: IsValidAlexaRequest_def Let_def)

lemma certURL_rejected:
  assumes "\<not> insecureSkipVerify r"
    and "verifyCertURL (url_Parse env) (certChainUrl request) = Inr False"
  shows "IsValidAlexaRequest env r w request =
    Inr (False,
         HTTPError (w @ [CallVerifyCertURL (certChainUrl request)])
           (''Invalid cert URL: '' @ certChainUrl request) ''Not Authorized'' 401,
         request)"
  using assms by (simp add: IsValidAlexaRequest_def Let_def)

lemma fetch_rejected:
  assumes "\<not> insecureSkipVerify r"
    and "verifyCertURL (url_Parse env) (certChainUrl request) = Inr True"
    and "readCert r (certChainUrl request) = Inl msg"
  shows "IsValidAlexaRequest env r w request =
    Inr (False,
         HTTPError (w @ [CallVerifyCertURL (certChainUrl request), CallClientGet (certChainUrl request)])
           msg ''Not Authorized'' 401,
         request)"
  using assms by (simp add: IsValidAlexaRequest_def Let_def)

lemma pem_rejected:
  assumes "\<not> insecureSkipVerify r"
    and "verifyCertURL (url_Parse env) (certChainUrl request) = Inr True"
    and "readCert r (certChainUrl request) = Inr certContents"
    and "pem_Decode env certContents = None"
  shows "IsValidAlexaRequest env r w request =
    Inr (False,
         HTTPError (w @ [CallVerifyCertURL (certChainUrl request), CallClientGet (certChainUrl request),
                         CallPemDecode certContents])
           ''Failed to parse certificate PEM.'' ''Not Authorized'' 401,
         request)"
  using assms by (simp add: IsValidAlexaRequest_def Let_def)

lemma x509_rejected:
  assumes "\<not> insecureSkipVerify r"
    and "verifyCertURL (url_Parse env) (certChainUrl request) = Inr True"
    and "readCert r (certChainUrl request) = Inr certContents"
    and "pem_Decode env certContents = Some block_Bytes"
    and "x509_ParseCertificate env block_Bytes = Inl err"
  shows "IsValidAlexaRequest env r w request =
    Inr (False,
         HTTPError (parsed_trace w request certContents block_Bytes) err ''Not Authorized'' 401,
         request)"
  using assms by (simp add: IsValidAlexaRequest_def Let_def)

lemma expired_rejected:
  assumes "certificate_parsed env r request certContents block_Bytes cert"
    and "time_Now env 0 < NotBefore cert \<or> time_Now env 1 > NotAfter cert"
  shows "IsValidAlexaRequest env r w request =
    Inr (False,
         HTTPError (parsed_trace w request certContents block_Bytes)
           ''Amazon certificate expired.'' ''Not Authorized'' 401,
         request)"
  using assms by (simp add: IsValidAlexaRequest_def Let_def)

lemma name_rejected:
  assumes "certificate_parsed env r request certContents block_Bytes cert"
    and "NotBefore cert \<le> time_Now env 0" and "time_Now env 1 \<le> NotAfter cert"
    and "StringValue ''echo-api.amazon.com'' \<notin> set (Subject_Names cert)"
  shows "IsValidAlexaRequest env r w request =
    Inr (False,
         HTTPError (parsed_trace w request certContents block_Bytes)
           ''Amazon certificate invalid.'' ''Not Authorized'' 401,
         request)"
  using assms by (simp add: IsValidAlexaRequest_def Let_def foundName_loop_eq)

lemma body_read_rejected:
  assumes "certificate_parsed env r request certContents block_Bytes cert"
    and "NotBefore cert \<le> time_Now env 0" and "time_Now env 1 \<le> NotAfter cert"
    and "StringValue ''echo-api.amazon.com'' \<in> set (Subject_Names cert)"
    and "failure (Body request) = Some e"
  shows "IsValidAlexaRequest env r w request =
    Inr (False,
         HTTPError (parsed_trace w request certContents block_Bytes
                      @ [CallBase64Decode (Get (Header request) ''Signature''),
                         Sha1Write (pending (Body request))])
           e ''Internal Error'' 500,
         request\<lparr>Body := (Body request)\<lparr>pending := []\<rparr>\<rparr>)"
  using assms
  by (simp add: IsValidAlexaRequest_def Let_def foundName_loop_eq Copy_TeeReader_def)

lemma non_rsa_key_panics:
  assumes "certificate_parsed env r request certContents block_Bytes cert"
    and "NotBefore cert \<le> time_Now env 0" and "time_Now env 1 \<le> NotAfter cert"
    and "StringValue ''echo-api.amazon.com'' \<in> set (Subject_Names cert)"
    and "failure (Body request) = None"
    and "\<forall>n e. PublicKey cert \<noteq> RSAPublicKey n e"
  shows "IsValidAlexaRequest env r w request = Inl TypeAssertionFailed"
  using assms
  by (simp add: IsValidAlexaRequest_def Let_def foundName_loop_eq Copy_TeeReader_def
      split: public_key.splits)

lemma signature_stage:
  assumes "certificate_parsed env r request certContents block_Bytes cert"
    and "NotBefore cert \<le> time_Now env 0" and "time_Now env 1 \<le> NotAfter cert"
    and "StringValue ''echo-api.amazon.com'' \<in> set (Subject_Names cert)"
    and "failure (Body request) = None"
    and "PublicKey cert = RSAPublicKey n e"
  shows "IsValidAlexaRequest env r w request =
    (let signature = Get (Header request) ''Signature'';
         body = pending (Body request);
         encryptedSig = fst (base64_DecodeString env signature);
         w7 = parsed_trace w request certContents block_Bytes
                @ [CallBase64Decode signature, Sha1Write body,
                   CallRsaVerify (RSAPublicKey n e) (sha1_Sum env body) encryptedSig];
         request' = request\<lparr>Body := NopCloser body\<rparr>
     in if rsa_VerifyPKCS1v15 env n e (sha1_Sum env body) encryptedSig
        then Inr (True, w7, request')
        else Inr (False, HTTPError w7 ''Signature match failed.'' ''Not Authorized'' 401, request'))"
  using assms
  by (simp add: IsValidAlexaRequest_def Let_def foundName_loop_eq Copy_TeeReader_def)

text \<open>The concrete world.\<close>

lemma demo_env_sel [simp]:
  "url_Parse (demo_env cert now) = demo_parse"
  "pem_Decode (demo_env cert now) ''PEM'' = Some ''DER''"
  "pem_Decode (demo_env cert now) ''PEM2'' = Some ''bad DER''"
  "pem_Decode (demo_env cert now) ''garbage'' = None"
  "x509_ParseCertificate (demo_env cert now) ''DER'' = Inr cert"
  "x509_ParseCertificate (demo_env cert now) ''bad DER'' = Inl ''x509: malformed certificate''"
  "time_Now (demo_env cert now) k = now"
  "base64_DecodeString (demo_env cert now) = demo_base64"
  "sha1_Sum (demo_env cert now) ''body'' = ''sha1:body''"
  "sha1_Sum (demo_env cert now) ''b0dy'' = ''sha1:b0dy''"
  "rsa_VerifyPKCS1v15 (demo_env cert now) n e digest sig =
     (n = 3233 \<and> e = 17 \<and> digest = ''sha1:body'' \<and> sig = ''sig'')"
  "VerifyAppID (demo_env cert now) echoReq appID = (appID = ''amzn1.echo-sdk-ams.app.1'')"
  by (simp_all add: demo_env_def)

lemma demo_json_Decode [simp]:
  "json_Decode (demo_env cert now) \<lparr>pending = ''body'', failure = None\<rparr>
     = (Inr \<lparr>Timestamp = 1400\<rparr>, \<lparr>pending = [], failure = None\<rparr>)"
  "json_Decode (demo_env cert now) \<lparr>pending = ''{'', failure = None\<rparr>
     = (Inl ''unexpected end of JSON input'', \<lparr>pending = [], failure = None\<rparr>)"
  by (simp_all add: demo_env_def)

lemma demo_request_sel [simp]:
  "certChainUrl (demo_request certURL signature dev body) = certURL"
  "Get (Header (demo_request certURL signature dev body)) ''Signature'' = signature"
  "Get (Query (demo_request certURL signature dev body)) ''_dev'' = dev"
  "URL_Path (demo_request certURL signature dev body) = ''/echo/hello''"
  "Body (demo_request certURL signature dev body) = \<lparr>pending = body, failure = None\<rparr>"
  by (simp_all add: demo_request_def Get_def)

lemma demo_request_Body [simp]:
  "(demo_request certURL signature dev body)\<lparr>Body := \<lparr>pending = body', failure = None\<rparr>\<rparr>
     = demo_request certURL signature dev body'"
  by (simp add: demo_request_def)

lemma demo_verifyCertURL [simp]:
  "verifyCertURL demo_parse demo_certURL = Inr True"
  "verifyCertURL demo_parse ''https://s3.amazonaws.com:443/echo.api/missing.pem'' = Inr True"
  "verifyCertURL demo_parse ''http://s3.amazonaws.com/echo.api/echo-api-cert.pem'' = Inr False"
  by (simp_all add: verifyCertURL_def demo_parse_def demo_certURL_def HasPrefix_def)

lemma demo_validator_sel [simp]:
  "\<not> insecureSkipVerify (demo_validator served)"
  "readCert (demo_validator served) demo_certURL = Inr served"
  "readCert (demo_validator served) ''https://s3.amazonaws.com:443/echo.api/missing.pem''
     = Inl ''could not download Amazon cert file: dial tcp: i/o timeout''"
  by (simp_all add: demo_validator_def readCert_def ReadAll_def demo_certURL_def)

lemma demo_cert_sel [simp]:
  "NotBefore demo_cert = 1000" "NotAfter demo_cert = 2000"
  "Subject_Names demo_cert = [StringValue ''US'', StringValue ''echo-api.amazon.com'']"
  "DNSNames demo_cert = [''echo-api.amazon.com'']"
  "PublicKey demo_cert = RSAPublicKey 3233 17"
  by (simp_all add: demo_cert_def)

lemma demo_base64_sel [simp]:
  "demo_base64 ''c2ln'' = (''sig'', None)"
  "demo_base64 ''c2ln!'' = (''sig'', Some ''illegal base64 data at input byte 4'')"
  "demo_base64 ''AAAA'' = ([], Some ''illegal base64 data at input byte 0'')"
  by (simp_all add: demo_base64_def)

lemma demo_accepted:
  "IsValidAlexaRequest (demo_env demo_cert 1500) (demo_validator ''PEM'') []
     (demo_request demo_certURL ''c2ln'' [] ''body'')
   = Inr (True,
          [CallVerifyCertURL demo_certURL, CallClientGet demo_certURL, CallPemDecode ''PEM'',
           CallParseCertificate ''DER'', CallBase64Decode ''c2ln'', Sha1Write ''body'',
           CallRsaVerify (RSAPublicKey 3233 17) ''sha1:body'' ''sig''],
          demo_request demo_certURL ''c2ln'' [] ''body'')"
  using signature_stage [where env = "demo_env demo_cert 1500" and r = "demo_validator ''PEM''"
      and request = "demo_request demo_certURL ''c2ln'' [] ''body''" and certContents = "''PEM''"
      and block_Bytes = "''DER''" and cert = demo_cert and n = 3233 and e = 17 and w = "[]"]
  by (simp add: NopCloser_def Let_def)

subsection \<open>The certificate URL validator\<close>

text \<open>
  C2. For a string that \<^verbatim>\<open>url.Parse\<close> parses, \<open>verifyCertURL\<close> returns true exactly
  when the scheme of the parsed URL is \<open>https\<close>, its host is \<open>s3.amazonaws.com\<close> or
  \<open>s3.amazonaws.com:443\<close>, and its path starts with \<open>/echo.api/\<close>; otherwise it
  returns false.
\<close>

theorem verifyCertURL_accepts_iff:
  assumes "parse path = Some link"
  shows "verifyCertURL parse path =
           Inr (Scheme link = ''https''
                \<and> (Host link = ''s3.amazonaws.com'' \<or> Host link = ''s3.amazonaws.com:443'')
                \<and> (\<exists>rest. Path link = ''/echo.api/'' @ rest))"
  using assms by (simp add: verifyCertURL_def HasPrefix_iff)

theorem verifyCertURL_accepts_iff_witness:
  "demo_parse demo_certURL
     = Some \<lparr>Scheme = ''https'', Host = ''s3.amazonaws.com'', Path = ''/echo.api/echo-api-cert.pem''\<rparr>
   \<and> verifyCertURL demo_parse demo_certURL = Inr True
   \<and> demo_parse ''http://s3.amazonaws.com/echo.api/echo-api-cert.pem''
     = Some \<lparr>Scheme = ''http'', Host = ''s3.amazonaws.com'', Path = ''/echo.api/echo-api-cert.pem''\<rparr>
   \<and> verifyCertURL demo_parse ''http://s3.amazonaws.com/echo.api/echo-api-cert.pem'' = Inr False"
proof -
  have p1: "demo_parse demo_certURL
     = Some \<lparr>Scheme = ''https'', Host = ''s3.amazonaws.com'', Path = ''/echo.api/echo-api-cert.pem''\<rparr>"
    by (simp add: demo_parse_def)
  have p2: "demo_parse ''http://s3.amazonaws.com/echo.api/echo-api-cert.pem''
     = Some \<lparr>Scheme = ''http'', Host = ''s3.amazonaws.com'', Path = ''/echo.api/echo-api-cert.pem''\<rparr>"
    by (simp add: demo_parse_def demo_certURL_def)
  show ?thesis
    using p1 p2
      verifyCertURL_accepts_iff [where parse = demo_parse and path = demo_certURL]
      verifyCertURL_accepts_iff [where parse = demo_parse
        and path = "''http://s3.amazonaws.com/echo.api/echo-api-cert.pem''"]
    by simp
qed

text \<open>
  C4. \<open>verifyCertURL\<close> is not total on strings: where \<^verbatim>\<open>url.Parse\<close> fails it returns a
  nil URL, and \<open>verifyCertURL\<close> panics on reading the scheme instead of returning false.
\<close>

theorem verifyCertURL_panics_on_unparsable:
  assumes "parse path = None"
  shows "verifyCertURL parse path = Inl NilPointerDereference"
  using assms by (simp add: verifyCertURL_def)

theorem verifyCertURL_panics_on_unparsable_witness:
  "demo_parse '':'' = None \<and> verifyCertURL demo_parse '':'' = Inl NilPointerDereference
   \<and> IsValidAlexaRequest (demo_env demo_cert 1500) (demo_validator ''PEM'') []
        (demo_request '':'' ''c2ln'' [] ''body'') = Inl NilPointerDereference"
proof -
  have p: "demo_parse '':'' = None"
    by (simp add: demo_parse_def demo_certURL_def)
  have v: "verifyCertURL demo_parse '':'' = Inl NilPointerDereference"
    using p verifyCertURL_panics_on_unparsable [where parse = demo_parse and path = "'':''"]
    by simp
  show ?thesis
    using p v certURL_panic [where env = "demo_env demo_cert 1500" and r = "demo_validator ''PEM''"
        and request = "demo_request '':'' ''c2ln'' [] ''body''" and w = "[]"
        and p = NilPointerDereference]
    by simp
qed

subsection \<open>The development escape\<close>

text \<open>
  C10. When \<^verbatim>\<open>req.URL.Query().Get("_dev")\<close> is not empty, \<open>validateRequest\<close> hands the
  request and the response writer to the next handler as they are: whatever the
  validator and the outside world are, no stage of the gate is entered.
\<close>

theorem validateRequest_dev_bypass:
  assumes "Get (Query req) ''_dev'' \<noteq> []"
  shows "validateRequest env r next_handler w req = next_handler w req"
  using assms by (simp add: validateRequest_def Let_def)

theorem validateRequest_dev_bypass_witness:
  "Get (Query (demo_request ''http://evil.example/cert.pem'' ''AAAA'' ''1'' ''body'')) ''_dev'' \<noteq> []
   \<and> validateRequest (demo_env demo_cert 1500) (demo_validator ''PEM'') demo_next []
        (demo_request ''http://evil.example/cert.pem'' ''AAAA'' ''1'' ''body'')
      = Inr ([LogPrintln ''next handler''],
             demo_request ''http://evil.example/cert.pem'' ''AAAA'' ''1'' ''body'')"
  using validateRequest_dev_bypass [where req = "demo_request ''http://evil.example/cert.pem'' ''AAAA'' ''1'' ''body''"
      and env = "demo_env demo_cert 1500" and r = "demo_validator ''PEM''"
      and next_handler = demo_next and w = "[]"]
  by (simp add: demo_next_def)

subsection \<open>The orchestrator\<close>

text \<open>
  C5. When the gate is on, the certificate URL is allowed and \<open>readCert\<close> returns an
  error, \<open>IsValidAlexaRequest\<close> returns false, having logged the error of \<open>readCert\<close>
  (a text that starts with the transport failure it wraps) and written status 401. The
  run ends there: after the call of the HTTP client the trace holds the log line and the
  response only, so nothing is written to the SHA-1 hash and no RSA verification is
  called, and the request is as it was.
\<close>

theorem fetch_failure_is_terminal:
  assumes "\<not> insecureSkipVerify r"
    and "verifyCertURL (url_Parse env) (certChainUrl request) = Inr True"
    and "readCert r (certChainUrl request) = Inl msg"
  shows "IsValidAlexaRequest env r w request =
           Inr (False,
                w @ [CallVerifyCertURL (certChainUrl request), CallClientGet (certChainUrl request),
                     LogPrintln msg, HttpError ''Not Authorized'' 401],
                request)
         \<and> (HasPrefix msg ''could not download Amazon cert file: ''
              \<or> HasPrefix msg ''could not read Amazon cert file: '')"
proof -
  have "msg \<noteq> []"
    using assms(3) by (rule readCert_error_nonempty)
  then have "HTTPError (w @ [CallVerifyCertURL (certChainUrl request), CallClientGet (certChainUrl request)])
                msg ''Not Authorized'' 401
             = w @ [CallVerifyCertURL (certChainUrl request), CallClientGet (certChainUrl request),
                    LogPrintln msg, HttpError ''Not Authorized'' 401]"
    by (simp add: HTTPError_def)
  with fetch_rejected [OF assms] readCert_error_text [OF assms(3)] show ?thesis
    by simp
qed

theorem fetch_failure_is_terminal_witness:
  "\<not> insecureSkipVerify (demo_validator ''PEM'')
   \<and> verifyCertURL (url_Parse (demo_env demo_cert 1500))
        ''https://s3.amazonaws.com:443/echo.api/missing.pem'' = Inr True
   \<and> readCert (demo_validator ''PEM'') ''https://s3.amazonaws.com:443/echo.api/missing.pem''
        = Inl ''could not download Amazon cert file: dial tcp: i/o timeout''
   \<and> IsValidAlexaRequest (demo_env demo_cert 1500) (demo_validator ''PEM'') []
        (demo_request ''https://s3.amazonaws.com:443/echo.api/missing.pem'' ''c2ln'' [] ''body'')
      = Inr (False,
             [CallVerifyCertURL ''https://s3.amazonaws.com:443/echo.api/missing.pem'',
              CallClientGet ''https://s3.amazonaws.com:443/echo.api/missing.pem'',
              LogPrintln ''could not download Amazon cert file: dial tcp: i/o timeout'',
              HttpError ''Not Authorized'' 401],
             demo_request ''https://s3.amazonaws.com:443/echo.api/missing.pem'' ''c2ln'' [] ''body'')"
  using fetch_failure_is_terminal [where r = "demo_validator ''PEM''"
      and env = "demo_env demo_cert 1500" and w = "[]"
      and request = "demo_request ''https://s3.amazonaws.com:443/echo.api/missing.pem'' ''c2ln'' [] ''body''"
      and msg = "''could not download Amazon cert file: dial tcp: i/o timeout''"]
  by simp

text \<open>
  C6. For a parsed certificate, and a clock that reads the same second \<open>now\<close> at both of
  its readings, the request is rejected as expired exactly when \<open>now\<close> is outside
  \<open>[NotBefore, NotAfter]\<close>: before \<open>NotBefore\<close> or after \<open>NotAfter\<close> it is rejected, and
  at either bound it is not.
\<close>

theorem certificate_date_check:
  assumes "certificate_parsed env r request certContents block_Bytes cert"
    and "time_Now env 0 = now" and "time_Now env 1 = now"
  shows "(IsValidAlexaRequest env r w request =
            Inr (False,
                 HTTPError (parsed_trace w request certContents block_Bytes)
                   ''Amazon certificate expired.'' ''Not Authorized'' 401,
                 request))
         \<longleftrightarrow> \<not> (NotBefore cert \<le> now \<and> now \<le> NotAfter cert)"
  using assms
  by (auto simp: IsValidAlexaRequest_def Let_def HTTPError_def foundName_loop_eq
      Copy_TeeReader_def split: option.splits public_key.splits)

theorem certificate_date_check_witness:
  "certificate_parsed (demo_env demo_cert 999) (demo_validator ''PEM'')
     (demo_request demo_certURL ''c2ln'' [] ''body'') ''PEM'' ''DER'' demo_cert
   \<and> IsValidAlexaRequest (demo_env demo_cert 999) (demo_validator ''PEM'') []
        (demo_request demo_certURL ''c2ln'' [] ''body'')
      = Inr (False,
             HTTPError (parsed_trace [] (demo_request demo_certURL ''c2ln'' [] ''body'') ''PEM'' ''DER'')
               ''Amazon certificate expired.'' ''Not Authorized'' 401,
             demo_request demo_certURL ''c2ln'' [] ''body'')
   \<and> IsValidAlexaRequest (demo_env demo_cert 2001) (demo_validator ''PEM'') []
        (demo_request demo_certURL ''c2ln'' [] ''body'')
      = Inr (False,
             HTTPError (parsed_trace [] (demo_request demo_certURL ''c2ln'' [] ''body'') ''PEM'' ''DER'')
               ''Amazon certificate expired.'' ''Not Authorized'' 401,
             demo_request demo_certURL ''c2ln'' [] ''body'')
   \<and> IsValidAlexaRequest (demo_env demo_cert 1000) (demo_validator ''PEM'') []
        (demo_request demo_certURL ''c2ln'' [] ''body'')
      \<noteq> Inr (False,
             HTTPError (parsed_trace [] (demo_request demo_certURL ''c2ln'' [] ''body'') ''PEM'' ''DER'')
               ''Amazon certificate expired.'' ''Not Authorized'' 401,
             demo_request demo_certURL ''c2ln'' [] ''body'')
   \<and> IsValidAlexaRequest (demo_env demo_cert 2000) (demo_validator ''PEM'') []
        (demo_request demo_certURL ''c2ln'' [] ''body'')
      \<noteq> Inr (False,
             HTTPError (parsed_trace [] (demo_request demo_certURL ''c2ln'' [] ''body'') ''PEM'' ''DER'')
               ''Amazon certificate expired.'' ''Not Authorized'' 401,
             demo_request demo_certURL ''c2ln'' [] ''body'')"
  using
    certificate_date_check [where env = "demo_env demo_cert 999" and r = "demo_validator ''PEM''"
      and request = "demo_request demo_certURL ''c2ln'' [] ''body''" and certContents = "''PEM''"
      and block_Bytes = "''DER''" and cert = demo_cert and now = 999 and w = "[]"]
    certificate_date_check [where env = "demo_env demo_cert 2001" and r = "demo_validator ''PEM''"
      and request = "demo_request demo_certURL ''c2ln'' [] ''body''" and certContents = "''PEM''"
      and block_Bytes = "''DER''" and cert = demo_cert and now = 2001 and w = "[]"]
    certificate_date_check [where env = "demo_env demo_cert 1000" and r = "demo_validator ''PEM''"
      and request = "demo_request demo_certURL ''c2ln'' [] ''body''" and certContents = "''PEM''"
      and block_Bytes = "''DER''" and cert = demo_cert and now = 1000 and w = "[]"]
    certificate_date_check [where env = "demo_env demo_cert 2000" and r = "demo_validator ''PEM''"
      and request = "demo_request demo_certURL ''c2ln'' [] ''body''" and certContents = "''PEM''"
      and block_Bytes = "''DER''" and cert = demo_cert and now = 2000 and w = "[]"]
  by simp

subsection \<open>The request body\<close>

text \<open>
  C8. When a run of \<open>IsValidAlexaRequest\<close> (started on an empty trace) returns after
  calling the RSA verification, whether it accepts or rejects, the body of the request
  it leaves behind reads, without error, as exactly the bytes of the original body;
  these are the bytes that were written to the SHA-1 hash, and the digest verified is
  their digest. Nothing else of the request has changed.
\<close>

theorem body_replayed_after_signature_check:
  assumes "IsValidAlexaRequest env r [] request = Inr (valid, w', request')"
    and "CallRsaVerify key digest sig \<in> set w'"
  shows "ReadAll (Body request') = Inr (pending (Body request))
         \<and> request' = request\<lparr>Body := NopCloser (pending (Body request))\<rparr>
         \<and> Sha1Write (pending (Body request)) \<in> set w'
         \<and> digest = sha1_Sum env (pending (Body request))"
  using assms
  by (auto simp: IsValidAlexaRequest_def Let_def HTTPError_def Copy_TeeReader_def NopCloser_def
      ReadAll_def split: if_splits sum.splits option.splits public_key.splits)

theorem body_replayed_after_signature_check_witness:
  "IsValidAlexaRequest (demo_env demo_cert 1500) (demo_validator ''PEM'') []
     (demo_request demo_certURL ''AAAA'' [] ''body'')
   = Inr (False,
          [CallVerifyCertURL demo_certURL, CallClientGet demo_certURL, CallPemDecode ''PEM'',
           CallParseCertificate ''DER'', CallBase64Decode ''AAAA'', Sha1Write ''body'',
           CallRsaVerify (RSAPublicKey 3233 17) ''sha1:body'' [],
           LogPrintln ''Signature match failed.'', HttpError ''Not Authorized'' 401],
          demo_request demo_certURL ''AAAA'' [] ''body'')
   \<and> ReadAll (Body (demo_request demo_certURL ''AAAA'' [] ''body'')) = Inr ''body''"
proof -
  have run: "IsValidAlexaRequest (demo_env demo_cert 1500) (demo_validator ''PEM'') []
     (demo_request demo_certURL ''AAAA'' [] ''body'')
   = Inr (False,
          [CallVerifyCertURL demo_certURL, CallClientGet demo_certURL, CallPemDecode ''PEM'',
           CallParseCertificate ''DER'', CallBase64Decode ''AAAA'', Sha1Write ''body'',
           CallRsaVerify (RSAPublicKey 3233 17) ''sha1:body'' [],
           LogPrintln ''Signature match failed.'', HttpError ''Not Authorized'' 401],
          demo_request demo_certURL ''AAAA'' [] ''body'')"
    using signature_stage [where env = "demo_env demo_cert 1500" and r = "demo_validator ''PEM''"
        and request = "demo_request demo_certURL ''AAAA'' [] ''body''" and certContents = "''PEM''"
        and block_Bytes = "''DER''" and cert = demo_cert and n = 3233 and e = 17 and w = "[]"]
    by (simp add: NopCloser_def Let_def HTTPError_def)
  show ?thesis
    using run body_replayed_after_signature_check [OF run, of "RSAPublicKey 3233 17" "''sha1:body''" "[]"]
    by simp
qed

subsection \<open>Freshness\<close>

text \<open>
  C7. With \<open>VerifyTimestamp\<close> as the spec gives it (window 150 seconds), for a payload
  that decodes: when the claimed timestamp differs from the current time by more than
  150 seconds, in either direction, and the \<^verbatim>\<open>_dev\<close> parameter is empty, \<open>verifyJSON\<close>
  writes status 400 and stops; when the difference is at most 150 seconds the check
  passes and \<open>verifyJSON\<close> goes on to the application id.
\<close>

theorem verifyJSON_freshness:
  assumes "json_Decode env (Body r) = (Inr echoReq, rest)"
  shows "(VerifyTimestamp (time_Now env 0) echoReq
            \<longleftrightarrow> \<bar>time_Now env 0 - Timestamp echoReq\<bar> \<le> 150)
       \<and> (\<bar>time_Now env 0 - Timestamp echoReq\<bar> > 150 \<and> Get (Query r) ''_dev'' = [] \<longrightarrow>
            verifyJSON env applications next_handler w r =
              Inr (HTTPError (w @ [CallJsonDecode]) ''Request too old to continue (>150s).''
                     ''Bad Request'' 400,
                   r\<lparr>Body := rest\<rparr>))
       \<and> (\<bar>time_Now env 0 - Timestamp echoReq\<bar> \<le> 150 \<longrightarrow>
            verifyJSON env applications next_handler w r =
              (case applications (URL_Path r) of
                 Some (EchoApplication appID) \<Rightarrow>
                   if \<not> VerifyAppID env echoReq appID
                   then Inr (HTTPError (w @ [CallJsonDecode]) ''Echo AppID mismatch!''
                               ''Bad Request'' 400,
                             r\<lparr>Body := rest\<rparr>)
                   else next_handler (w @ [CallJsonDecode])
                          (r\<lparr>Body := rest, echoRequest := Some echoReq\<rparr>)
               | _ \<Rightarrow> Inl TypeAssertionFailed))"
  using assms
  by (auto simp: verifyJSON_def VerifyTimestamp_def freshness_window_def Let_def
      split: option.splits application.splits)

theorem verifyJSON_freshness_witness:
  "json_Decode (demo_env demo_cert 1600) (Body (demo_request demo_certURL ''c2ln'' [] ''body''))
     = (Inr \<lparr>Timestamp = 1400\<rparr>, \<lparr>pending = [], failure = None\<rparr>)
   \<and> verifyJSON (demo_env demo_cert 1600) demo_applications demo_next []
        (demo_request demo_certURL ''c2ln'' [] ''body'')
      = Inr ([CallJsonDecode, LogPrintln ''Request too old to continue (>150s).'',
              HttpError ''Bad Request'' 400],
             demo_request demo_certURL ''c2ln'' [] [])
   \<and> verifyJSON (demo_env demo_cert 1200) demo_applications demo_next []
        (demo_request demo_certURL ''c2ln'' [] ''body'')
      = Inr ([CallJsonDecode, LogPrintln ''Request too old to continue (>150s).'',
              HttpError ''Bad Request'' 400],
             demo_request demo_certURL ''c2ln'' [] [])
   \<and> verifyJSON (demo_env demo_cert 1550) demo_applications demo_next []
        (demo_request demo_certURL ''c2ln'' [] ''body'')
      = Inr ([CallJsonDecode, LogPrintln ''next handler''],
             (demo_request demo_certURL ''c2ln'' [] [])\<lparr>echoRequest := Some \<lparr>Timestamp = 1400\<rparr>\<rparr>)"
  using
    verifyJSON_freshness [where env = "demo_env demo_cert 1600"
      and r = "demo_request demo_certURL ''c2ln'' [] ''body''" and echoReq = "\<lparr>Timestamp = 1400\<rparr>"
      and rest = "\<lparr>pending = [], failure = None\<rparr>" and applications = demo_applications
      and next_handler = demo_next and w = "[]"]
    verifyJSON_freshness [where env = "demo_env demo_cert 1200"
      and r = "demo_request demo_certURL ''c2ln'' [] ''body''" and echoReq = "\<lparr>Timestamp = 1400\<rparr>"
      and rest = "\<lparr>pending = [], failure = None\<rparr>" and applications = demo_applications
      and next_handler = demo_next and w = "[]"]
    verifyJSON_freshness [where env = "demo_env demo_cert 1550"
      and r = "demo_request demo_certURL ''c2ln'' [] ''body''" and echoReq = "\<lparr>Timestamp = 1400\<rparr>"
      and rest = "\<lparr>pending = [], failure = None\<rparr>" and applications = demo_applications
      and next_handler = demo_next and w = "[]"]
  by (simp add: HTTPError_def demo_applications_def demo_next_def)

subsection \<open>Status codes\<close>

text \<open>
  C9. Each rejection of the gate calls \<open>HTTPError\<close> with a reason to log and a message
  and status to write: an invalid certificate URL, a failed fetch, a PEM or X.509 parse
  failure, a certificate outside its validity, a missing subject name and a failed
  signature verification write \<open>''Not Authorized''\<close> with status 401; an undecodable
  payload and a timestamp that fails \<open>VerifyTimestamp\<close> write \<open>''Bad Request''\<close> with
  status 400. The response written is the last event of \<open>HTTPError\<close>, and its message
  is never empty. The reason logged is a fixed text, the text of \<open>readCert\<close>'s error
  (never empty), or the error text of the X.509 or JSON decoder.
\<close>

theorem rejection_status_codes:
  "(\<not> insecureSkipVerify r \<and> verifyCertURL (url_Parse env) (certChainUrl request) = Inr False \<longrightarrow>
      IsValidAlexaRequest env r w request =
        Inr (False,
             HTTPError (w @ [CallVerifyCertURL (certChainUrl request)])
               (''Invalid cert URL: '' @ certChainUrl request) ''Not Authorized'' 401,
             request))
   \<and> (\<not> insecureSkipVerify r \<and> verifyCertURL (url_Parse env) (certChainUrl request) = Inr True
        \<and> readCert r (certChainUrl request) = Inl msg \<longrightarrow>
      msg \<noteq> [] \<and>
      IsValidAlexaRequest env r w request =
        Inr (False,
             HTTPError (w @ [CallVerifyCertURL (certChainUrl request),
                             CallClientGet (certChainUrl request)])
               msg ''Not Authorized'' 401,
             request))
   \<and> (\<not> insecureSkipVerify r \<and> verifyCertURL (url_Parse env) (certChainUrl request) = Inr True
        \<and> readCert r (certChainUrl request) = Inr certContents
        \<and> pem_Decode env certContents = None \<longrightarrow>
      IsValidAlexaRequest env r w request =
        Inr (False,
             HTTPError (w @ [CallVerifyCertURL (certChainUrl request),
                             CallClientGet (certChainUrl request), CallPemDecode certContents])
               ''Failed to parse certificate PEM.'' ''Not Authorized'' 401,
             request))
   \<and> (\<not> insecureSkipVerify r \<and> verifyCertURL (url_Parse env) (certChainUrl request) = Inr True
        \<and> readCert r (certChainUrl request) = Inr certContents
        \<and> pem_Decode env certContents = Some block_Bytes
        \<and> x509_ParseCertificate env block_Bytes = Inl err \<longrightarrow>
      IsValidAlexaRequest env r w request =
        Inr (False,
             HTTPError (parsed_trace w request certContents block_Bytes) err ''Not Authorized'' 401,
             request))
   \<and> (certificate_parsed env r request certContents block_Bytes cert
        \<and> (time_Now env 0 < NotBefore cert \<or> time_Now env 1 > NotAfter cert) \<longrightarrow>
      IsValidAlexaRequest env r w request =
        Inr (False,
             HTTPError (parsed_trace w request certContents block_Bytes)
               ''Amazon certificate expired.'' ''Not Authorized'' 401,
             request))
   \<and> (certificate_parsed env r request certContents block_Bytes cert
        \<and> NotBefore cert \<le> time_Now env 0 \<and> time_Now env 1 \<le> NotAfter cert
        \<and> StringValue ''echo-api.amazon.com'' \<notin> set (Subject_Names cert) \<longrightarrow>
      IsValidAlexaRequest env r w request =
        Inr (False,
             HTTPError (parsed_trace w request certContents block_Bytes)
               ''Amazon certificate invalid.'' ''Not Authorized'' 401,
             request))
   \<and> (certificate_parsed env r request certContents block_Bytes cert
        \<and> NotBefore cert \<le> time_Now env 0 \<and> time_Now env 1 \<le> NotAfter cert
        \<and> StringValue ''echo-api.amazon.com'' \<in> set (Subject_Names cert)
        \<and> failure (Body request) = None
        \<and> PublicKey cert = RSAPublicKey n e
        \<and> \<not> rsa_VerifyPKCS1v15 env n e (sha1_Sum env (pending (Body request)))
              (fst (base64_DecodeString env (Get (Header request) ''Signature''))) \<longrightarrow>
      IsValidAlexaRequest env r w request =
        Inr (False,
             HTTPError (parsed_trace w request certContents block_Bytes
                          @ [CallBase64Decode (Get (Header request) ''Signature''),
                             Sha1Write (pending (Body request)),
                             CallRsaVerify (RSAPublicKey n e) (sha1_Sum env (pending (Body request)))
                               (fst (base64_DecodeString env (Get (Header request) ''Signature'')))])
               ''Signature match failed.'' ''Not Authorized'' 401,
             request\<lparr>Body := NopCloser (pending (Body request))\<rparr>))
   \<and> (json_Decode env (Body request) = (Inl err, rest) \<longrightarrow>
      verifyJSON env applications next_handler w request =
        Inr (HTTPError (w @ [CallJsonDecode]) err ''Bad Request'' 400, request\<lparr>Body := rest\<rparr>))
   \<and> (json_Decode env (Body request) = (Inr echoReq, rest)
        \<and> \<not> VerifyTimestamp (time_Now env 0) echoReq \<and> Get (Query request) ''_dev'' = [] \<longrightarrow>
      verifyJSON env applications next_handler w request =
        Inr (HTTPError (w @ [CallJsonDecode]) ''Request too old to continue (>150s).''
               ''Bad Request'' 400,
             request\<lparr>Body := rest\<rparr>))
   \<and> last (HTTPError w logMsg message errCode) = HttpError message errCode
   \<and> ''Not Authorized'' \<noteq> [] \<and> ''Bad Request'' \<noteq> []"
proof (intro conjI impI)
  assume "\<not> insecureSkipVerify r \<and> verifyCertURL (url_Parse env) (certChainUrl request) = Inr True
        \<and> readCert r (certChainUrl request) = Inl msg"
  then show "msg \<noteq> []"
    by (auto dest: readCert_error_nonempty)
next
  assume "certificate_parsed env r request certContents block_Bytes cert
        \<and> NotBefore cert \<le> time_Now env 0 \<and> time_Now env 1 \<le> NotAfter cert
        \<and> StringValue ''echo-api.amazon.com'' \<in> set (Subject_Names cert)
        \<and> failure (Body request) = None
        \<and> PublicKey cert = RSAPublicKey n e
        \<and> \<not> rsa_VerifyPKCS1v15 env n e (sha1_Sum env (pending (Body request)))
              (fst (base64_DecodeString env (Get (Header request) ''Signature'')))"
  then show "IsValidAlexaRequest env r w request =
        Inr (False,
             HTTPError (parsed_trace w request certContents block_Bytes
                          @ [CallBase64Decode (Get (Header request) ''Signature''),
                             Sha1Write (pending (Body request)),
                             CallRsaVerify (RSAPublicKey n e) (sha1_Sum env (pending (Body request)))
                               (fst (base64_DecodeString env (Get (Header request) ''Signature'')))])
               ''Signature match failed.'' ''Not Authorized'' 401,
             request\<lparr>Body := NopCloser (pending (Body request))\<rparr>)"
    using signature_stage [where env = env and r = r and request = request and w = w
        and certContents = certContents and block_Bytes = block_Bytes and cert = cert
        and n = n and e = e]
    by (simp add: Let_def)
next
  show "last (HTTPError w logMsg message errCode) = HttpError message errCode"
    by (simp add: HTTPError_def)
qed (simp_all add: certURL_rejected fetch_rejected pem_rejected x509_rejected expired_rejected
      name_rejected signature_stage Let_def verifyJSON_def)

theorem rejection_status_codes_witness:
  "IsValidAlexaRequest (demo_env demo_cert 1500) (demo_validator ''PEM'') []
     (demo_request ''http://s3.amazonaws.com/echo.api/echo-api-cert.pem'' ''c2ln'' [] ''body'')
   = Inr (False,
          [CallVerifyCertURL ''http://s3.amazonaws.com/echo.api/echo-api-cert.pem'',
           LogPrintln ''Invalid cert URL: http://s3.amazonaws.com/echo.api/echo-api-cert.pem'',
           HttpError ''Not Authorized'' 401],
          demo_request ''http://s3.amazonaws.com/echo.api/echo-api-cert.pem'' ''c2ln'' [] ''body'')
   \<and> IsValidAlexaRequest (demo_env demo_cert 1500) (demo_validator ''PEM'') []
     (demo_request ''https://s3.amazonaws.com:443/echo.api/missing.pem'' ''c2ln'' [] ''body'')
   = Inr (False,
          [CallVerifyCertURL ''https://s3.amazonaws.com:443/echo.api/missing.pem'',
           CallClientGet ''https://s3.amazonaws.com:443/echo.api/missing.pem'',
           LogPrintln ''could not download Amazon cert file: dial tcp: i/o timeout'',
           HttpError ''Not Authorized'' 401],
          demo_request ''https://s3.amazonaws.com:443/echo.api/missing.pem'' ''c2ln'' [] ''body'')
   \<and> IsValidAlexaRequest (demo_env demo_cert 1500) (demo_validator ''garbage'') []
     (demo_request demo_certURL ''c2ln'' [] ''body'')
   = Inr (False,
          [CallVerifyCertURL demo_certURL, CallClientGet demo_certURL, CallPemDecode ''garbage'',
           LogPrintln ''Failed to parse certificate PEM.'', HttpError ''Not Authorized'' 401],
          demo_request demo_certURL ''c2ln'' [] ''body'')
   \<and> IsValidAlexaRequest (demo_env demo_cert 1500) (demo_validator ''PEM2'') []
     (demo_request demo_certURL ''c2ln'' [] ''body'')
   = Inr (False,
          [CallVerifyCertURL demo_certURL, CallClientGet demo_certURL, CallPemDecode ''PEM2'',
           CallParseCertificate ''bad DER'',
           LogPrintln ''x509: malformed certificate'', HttpError ''Not Authorized'' 401],
          demo_request demo_certURL ''c2ln'' [] ''body'')
   \<and> IsValidAlexaRequest (demo_env demo_cert 2001) (demo_validator ''PEM'') []
     (demo_request demo_certURL ''c2ln'' [] ''body'')
   = Inr (False,
          [CallVerifyCertURL demo_certURL, CallClientGet demo_certURL, CallPemDecode ''PEM'',
           CallParseCertificate ''DER'',
           LogPrintln ''Amazon certificate expired.'', HttpError ''Not Authorized'' 401],
          demo_request demo_certURL ''c2ln'' [] ''body'')
   \<and> IsValidAlexaRequest (demo_env (demo_cert\<lparr>Subject_Names := [StringValue ''US'']\<rparr>) 1500)
     (demo_validator ''PEM'') [] (demo_request demo_certURL ''c2ln'' [] ''body'')
   = Inr (False,
          [CallVerifyCertURL demo_certURL, CallClientGet demo_certURL, CallPemDecode ''PEM'',
           CallParseCertificate ''DER'',
           LogPrintln ''Amazon certificate invalid.'', HttpError ''Not Authorized'' 401],
          demo_request demo_certURL ''c2ln'' [] ''body'')
   \<and> IsValidAlexaRequest (demo_env demo_cert 1500) (demo_validator ''PEM'') []
     (demo_request demo_certURL ''c2ln'' [] ''b0dy'')
   = Inr (False,
          [CallVerifyCertURL demo_certURL, CallClientGet demo_certURL, CallPemDecode ''PEM'',
           CallParseCertificate ''DER'', CallBase64Decode ''c2ln'', Sha1Write ''b0dy'',
           CallRsaVerify (RSAPublicKey 3233 17) ''sha1:b0dy'' ''sig'',
           LogPrintln ''Signature match failed.'', HttpError ''Not Authorized'' 401],
          demo_request demo_certURL ''c2ln'' [] ''b0dy'')
   \<and> verifyJSON (demo_env demo_cert 1500) demo_applications demo_next []
     (demo_request demo_certURL ''c2ln'' [] ''{'')
   = Inr ([CallJsonDecode, LogPrintln ''unexpected end of JSON input'', HttpError ''Bad Request'' 400],
          demo_request demo_certURL ''c2ln'' [] [])
   \<and> verifyJSON (demo_env demo_cert 1600) demo_applications demo_next []
     (demo_request demo_certURL ''c2ln'' [] ''body'')
   = Inr ([CallJsonDecode, LogPrintln ''Request too old to continue (>150s).'',
           HttpError ''Bad Request'' 400],
          demo_request demo_certURL ''c2ln'' [] [])"
proof -
  note inst = rejection_status_codes [where w = "[]" and applications = demo_applications
      and next_handler = demo_next]
  have url: "IsValidAlexaRequest (demo_env demo_cert 1500) (demo_validator ''PEM'') []
     (demo_request ''http://s3.amazonaws.com/echo.api/echo-api-cert.pem'' ''c2ln'' [] ''body'')
   = Inr (False,
          [CallVerifyCertURL ''http://s3.amazonaws.com/echo.api/echo-api-cert.pem'',
           LogPrintln ''Invalid cert URL: http://s3.amazonaws.com/echo.api/echo-api-cert.pem'',
           HttpError ''Not Authorized'' 401],
          demo_request ''http://s3.amazonaws.com/echo.api/echo-api-cert.pem'' ''c2ln'' [] ''body'')"
    using inst [where env = "demo_env demo_cert 1500" and r = "demo_validator ''PEM''"
        and request = "demo_request ''http://s3.amazonaws.com/echo.api/echo-api-cert.pem'' ''c2ln'' [] ''body''", THEN conjunct1]
    by (simp add: HTTPError_def)
  have fetch: "IsValidAlexaRequest (demo_env demo_cert 1500) (demo_validator ''PEM'') []
     (demo_request ''https://s3.amazonaws.com:443/echo.api/missing.pem'' ''c2ln'' [] ''body'')
   = Inr (False,
          [CallVerifyCertURL ''https://s3.amazonaws.com:443/echo.api/missing.pem'',
           CallClientGet ''https://s3.amazonaws.com:443/echo.api/missing.pem'',
           LogPrintln ''could not download Amazon cert file: dial tcp: i/o timeout'',
           HttpError ''Not Authorized'' 401],
          demo_request ''https://s3.amazonaws.com:443/echo.api/missing.pem'' ''c2ln'' [] ''body'')"
    using inst [where env = "demo_env demo_cert 1500" and r = "demo_validator ''PEM''"
        and request = "demo_request ''https://s3.amazonaws.com:443/echo.api/missing.pem'' ''c2ln'' [] ''body''"
        and msg = "''could not download Amazon cert file: dial tcp: i/o timeout''", THEN conjunct2, THEN conjunct1]
    by (simp add: HTTPError_def)
  have pem: "IsValidAlexaRequest (demo_env demo_cert 1500) (demo_validator ''garbage'') []
     (demo_request demo_certURL ''c2ln'' [] ''body'')
   = Inr (False,
          [CallVerifyCertURL demo_certURL, CallClientGet demo_certURL, CallPemDecode ''garbage'',
           LogPrintln ''Failed to parse certificate PEM.'', HttpError ''Not Authorized'' 401],
          demo_request demo_certURL ''c2ln'' [] ''body'')"
    using inst [where env = "demo_env demo_cert 1500" and r = "demo_validator ''garbage''"
        and request = "demo_request demo_certURL ''c2ln'' [] ''body''"
        and certContents = "''garbage''", THEN conjunct2, THEN conjunct2, THEN conjunct1]
    by (simp add: HTTPError_def)
  have x509: "IsValidAlexaRequest (demo_env demo_cert 1500) (demo_validator ''PEM2'') []
     (demo_request demo_certURL ''c2ln'' [] ''body'')
   = Inr (False,
          [CallVerifyCertURL demo_certURL, CallClientGet demo_certURL, CallPemDecode ''PEM2'',
           CallParseCertificate ''bad DER'',
           LogPrintln ''x509: malformed certificate'', HttpError ''Not Authorized'' 401],
          demo_request demo_certURL ''c2ln'' [] ''body'')"
    using inst [where env = "demo_env demo_cert 1500" and r = "demo_validator ''PEM2''"
        and request = "demo_request demo_certURL ''c2ln'' [] ''body''"
        and certContents = "''PEM2''" and block_Bytes = "''bad DER''"
        and err = "''x509: malformed certificate''", THEN conjunct2, THEN conjunct2, THEN conjunct2, THEN conjunct1]
    by (simp add: HTTPError_def)
  have expired: "IsValidAlexaRequest (demo_env demo_cert 2001) (demo_validator ''PEM'') []
     (demo_request demo_certURL ''c2ln'' [] ''body'')
   = Inr (False,
          [CallVerifyCertURL demo_certURL, CallClientGet demo_certURL, CallPemDecode ''PEM'',
           CallParseCertificate ''DER'',
           LogPrintln ''Amazon certificate expired.'', HttpError ''Not Authorized'' 401],
          demo_request demo_certURL ''c2ln'' [] ''body'')"
    using inst [where env = "demo_env demo_cert 2001" and r = "demo_validator ''PEM''"
        and request = "demo_request demo_certURL ''c2ln'' [] ''body''"
        and certContents = "''PEM''" and block_Bytes = "''DER''" and cert = demo_cert, THEN conjunct2, THEN conjunct2, THEN conjunct2, THEN conjunct2, THEN conjunct1]
    by (simp add: HTTPError_def)
  have name: "IsValidAlexaRequest (demo_env (demo_cert\<lparr>Subject_Names := [StringValue ''US'']\<rparr>) 1500)
     (demo_validator ''PEM'') [] (demo_request demo_certURL ''c2ln'' [] ''body'')
   = Inr (False,
          [CallVerifyCertURL demo_certURL, CallClientGet demo_certURL, CallPemDecode ''PEM'',
           CallParseCertificate ''DER'',
           LogPrintln ''Amazon certificate invalid.'', HttpError ''Not Authorized'' 401],
          demo_request demo_certURL ''c2ln'' [] ''body'')"
    using inst [where env = "demo_env (demo_cert\<lparr>Subject_Names := [StringValue ''US'']\<rparr>) 1500"
        and r = "demo_validator ''PEM''"
        and request = "demo_request demo_certURL ''c2ln'' [] ''body''"
        and certContents = "''PEM''" and block_Bytes = "''DER''"
        and cert = "demo_cert\<lparr>Subject_Names := [StringValue ''US'']\<rparr>", THEN conjunct2, THEN conjunct2, THEN conjunct2, THEN conjunct2, THEN conjunct2, THEN conjunct1]
    by (simp add: HTTPError_def)
  have signature: "IsValidAlexaRequest (demo_env demo_cert 1500) (demo_validator ''PEM'') []
     (demo_request demo_certURL ''c2ln'' [] ''b0dy'')
   = Inr (False,
          [CallVerifyCertURL demo_certURL, CallClientGet demo_certURL, CallPemDecode ''PEM'',
           CallParseCertificate ''DER'', CallBase64Decode ''c2ln'', Sha1Write ''b0dy'',
           CallRsaVerify (RSAPublicKey 3233 17) ''sha1:b0dy'' ''sig'',
           LogPrintln ''Signature match failed.'', HttpError ''Not Authorized'' 401],
          demo_request demo_certURL ''c2ln'' [] ''b0dy'')"
    using inst [where env = "demo_env demo_cert 1500" and r = "demo_validator ''PEM''"
        and request = "demo_request demo_certURL ''c2ln'' [] ''b0dy''"
        and certContents = "''PEM''" and block_Bytes = "''DER''" and cert = demo_cert
        and n = 3233 and e = 17, THEN conjunct2, THEN conjunct2, THEN conjunct2, THEN conjunct2, THEN conjunct2, THEN conjunct2, THEN conjunct1]
    by (simp add: HTTPError_def NopCloser_def)
  have json: "verifyJSON (demo_env demo_cert 1500) demo_applications demo_next []
     (demo_request demo_certURL ''c2ln'' [] ''{'')
   = Inr ([CallJsonDecode, LogPrintln ''unexpected end of JSON input'', HttpError ''Bad Request'' 400],
          demo_request demo_certURL ''c2ln'' [] [])"
    using inst [where env = "demo_env demo_cert 1500"
        and request = "demo_request demo_certURL ''c2ln'' [] ''{''"
        and err = "''unexpected end of JSON input''" and rest = "\<lparr>pending = [], failure = None\<rparr>", THEN conjunct2, THEN conjunct2, THEN conjunct2, THEN conjunct2, THEN conjunct2, THEN conjunct2, THEN conjunct2, THEN conjunct1]
    by (simp add: HTTPError_def)
  have stale: "verifyJSON (demo_env demo_cert 1600) demo_applications demo_next []
     (demo_request demo_certURL ''c2ln'' [] ''body'')
   = Inr ([CallJsonDecode, LogPrintln ''Request too old to continue (>150s).'',
           HttpError ''Bad Request'' 400],
          demo_request demo_certURL ''c2ln'' [] [])"
    using inst [where env = "demo_env demo_cert 1600"
        and request = "demo_request demo_certURL ''c2ln'' [] ''body''"
        and echoReq = "\<lparr>Timestamp = 1400\<rparr>" and rest = "\<lparr>pending = [], failure = None\<rparr>", THEN conjunct2, THEN conjunct2, THEN conjunct2, THEN conjunct2, THEN conjunct2, THEN conjunct2, THEN conjunct2, THEN conjunct2, THEN conjunct1]
    by (simp add: HTTPError_def VerifyTimestamp_def freshness_window_def)
  from url fetch pem x509 expired name signature json stale show ?thesis
    by (intro conjI)
qed

subsection \<open>Where the code departs from its documentation\<close>

text \<open>
  C1. The identity check reads the attributes of the subject's distinguished name
  (\<^verbatim>\<open>cert.Subject.Names\<close>), not the subject alternative names. A certificate with no
  subject alternative name at all, whose subject carries \<open>echo-api.amazon.com\<close>, is
  accepted; a certificate that lists \<open>echo-api.amazon.com\<close> among its subject
  alternative names, but not in its subject, is rejected.
\<close>

theorem identity_check_reads_subject_not_alternative_names:
  "''echo-api.amazon.com'' \<notin> set (DNSNames (demo_cert\<lparr>DNSNames := []\<rparr>))
   \<and> IsValidAlexaRequest (demo_env (demo_cert\<lparr>DNSNames := []\<rparr>) 1500) (demo_validator ''PEM'') []
        (demo_request demo_certURL ''c2ln'' [] ''body'')
      = Inr (True,
             [CallVerifyCertURL demo_certURL, CallClientGet demo_certURL, CallPemDecode ''PEM'',
              CallParseCertificate ''DER'', CallBase64Decode ''c2ln'', Sha1Write ''body'',
              CallRsaVerify (RSAPublicKey 3233 17) ''sha1:body'' ''sig''],
             demo_request demo_certURL ''c2ln'' [] ''body'')
   \<and> ''echo-api.amazon.com''
        \<in> set (DNSNames (demo_cert\<lparr>Subject_Names := [StringValue ''US'', StringValue ''Amazon'']\<rparr>))
   \<and> IsValidAlexaRequest
        (demo_env (demo_cert\<lparr>Subject_Names := [StringValue ''US'', StringValue ''Amazon'']\<rparr>) 1500)
        (demo_validator ''PEM'') [] (demo_request demo_certURL ''c2ln'' [] ''body'')
      = Inr (False,
             [CallVerifyCertURL demo_certURL, CallClientGet demo_certURL, CallPemDecode ''PEM'',
              CallParseCertificate ''DER'',
              LogPrintln ''Amazon certificate invalid.'', HttpError ''Not Authorized'' 401],
             demo_request demo_certURL ''c2ln'' [] ''body'')"
proof -
  have accepted: "IsValidAlexaRequest (demo_env (demo_cert\<lparr>DNSNames := []\<rparr>) 1500)
        (demo_validator ''PEM'') [] (demo_request demo_certURL ''c2ln'' [] ''body'')
      = Inr (True,
             [CallVerifyCertURL demo_certURL, CallClientGet demo_certURL, CallPemDecode ''PEM'',
              CallParseCertificate ''DER'', CallBase64Decode ''c2ln'', Sha1Write ''body'',
              CallRsaVerify (RSAPublicKey 3233 17) ''sha1:body'' ''sig''],
             demo_request demo_certURL ''c2ln'' [] ''body'')"
    using signature_stage [where env = "demo_env (demo_cert\<lparr>DNSNames := []\<rparr>) 1500"
        and r = "demo_validator ''PEM''" and request = "demo_request demo_certURL ''c2ln'' [] ''body''"
        and certContents = "''PEM''" and block_Bytes = "''DER''"
        and cert = "demo_cert\<lparr>DNSNames := []\<rparr>" and n = 3233 and e = 17 and w = "[]"]
    by (simp add: NopCloser_def Let_def)
  have rejected: "IsValidAlexaRequest
        (demo_env (demo_cert\<lparr>Subject_Names := [StringValue ''US'', StringValue ''Amazon'']\<rparr>) 1500)
        (demo_validator ''PEM'') [] (demo_request demo_certURL ''c2ln'' [] ''body'')
      = Inr (False,
             [CallVerifyCertURL demo_certURL, CallClientGet demo_certURL, CallPemDecode ''PEM'',
              CallParseCertificate ''DER'',
              LogPrintln ''Amazon certificate invalid.'', HttpError ''Not Authorized'' 401],
             demo_request demo_certURL ''c2ln'' [] ''body'')"
    using name_rejected [where
        env = "demo_env (demo_cert\<lparr>Subject_Names := [StringValue ''US'', StringValue ''Amazon'']\<rparr>) 1500"
        and r = "demo_validator ''PEM''" and request = "demo_request demo_certURL ''c2ln'' [] ''body''"
        and certContents = "''PEM''" and block_Bytes = "''DER''"
        and cert = "demo_cert\<lparr>Subject_Names := [StringValue ''US'', StringValue ''Amazon'']\<rparr>"
        and w = "[]"]
    by (simp add: HTTPError_def)
  from accepted rejected show ?thesis
    by simp
qed

text \<open>
  C3. The signature stage does not always end in a rejection where the claim says so.
  On a certificate whose public key is not an RSA key the type assertion panics: nothing
  is written and nothing is returned. An error of the base64 decoder is discarded: a
  \<^verbatim>\<open>Signature\<close> header that fails to decode, and whose decoded bytes up to the error
  are the valid signature, is accepted.
\<close>

theorem signature_stage_panics_or_accepts:
  "IsValidAlexaRequest (demo_env (demo_cert\<lparr>PublicKey := ECDSAPublicKey 7 11\<rparr>) 1500)
        (demo_validator ''PEM'') [] (demo_request demo_certURL ''c2ln'' [] ''body'')
      = Inl TypeAssertionFailed
   \<and> base64_DecodeString (demo_env demo_cert 1500) ''c2ln!''
      = (''sig'', Some ''illegal base64 data at input byte 4'')
   \<and> IsValidAlexaRequest (demo_env demo_cert 1500) (demo_validator ''PEM'') []
        (demo_request demo_certURL ''c2ln!'' [] ''body'')
      = Inr (True,
             [CallVerifyCertURL demo_certURL, CallClientGet demo_certURL, CallPemDecode ''PEM'',
              CallParseCertificate ''DER'', CallBase64Decode ''c2ln!'', Sha1Write ''body'',
              CallRsaVerify (RSAPublicKey 3233 17) ''sha1:body'' ''sig''],
             demo_request demo_certURL ''c2ln!'' [] ''body'')"
proof -
  have panics: "IsValidAlexaRequest (demo_env (demo_cert\<lparr>PublicKey := ECDSAPublicKey 7 11\<rparr>) 1500)
        (demo_validator ''PEM'') [] (demo_request demo_certURL ''c2ln'' [] ''body'')
      = Inl TypeAssertionFailed"
    using non_rsa_key_panics [where
        env = "demo_env (demo_cert\<lparr>PublicKey := ECDSAPublicKey 7 11\<rparr>) 1500"
        and r = "demo_validator ''PEM''" and request = "demo_request demo_certURL ''c2ln'' [] ''body''"
        and certContents = "''PEM''" and block_Bytes = "''DER''"
        and cert = "demo_cert\<lparr>PublicKey := ECDSAPublicKey 7 11\<rparr>" and w = "[]"]
    by simp
  have accepted: "IsValidAlexaRequest (demo_env demo_cert 1500) (demo_validator ''PEM'') []
        (demo_request demo_certURL ''c2ln!'' [] ''body'')
      = Inr (True,
             [CallVerifyCertURL demo_certURL, CallClientGet demo_certURL, CallPemDecode ''PEM'',
              CallParseCertificate ''DER'', CallBase64Decode ''c2ln!'', Sha1Write ''body'',
              CallRsaVerify (RSAPublicKey 3233 17) ''sha1:body'' ''sig''],
             demo_request demo_certURL ''c2ln!'' [] ''body'')"
    using signature_stage [where env = "demo_env demo_cert 1500"
        and r = "demo_validator ''PEM''" and request = "demo_request demo_certURL ''c2ln!'' [] ''body''"
        and certContents = "''PEM''" and block_Bytes = "''DER''"
        and cert = demo_cert and n = 3233 and e = 17 and w = "[]"]
    by (simp add: NopCloser_def Let_def)
  from panics accepted show ?thesis
    by simp
qed

end
